theory Spec2Isabelle
  imports Main
begin

section \<open>The platform functions the class calls\<close>

text \<open>
  A JavaScript string is modelled by \<open>string\<close>, the list of its UTF-8 bytes. The
  separators the class splits on (\<open>?\<close>, \<open>&\<close>, \<open>=\<close>) and the escape character
  \<open>%\<close> are ASCII, so splitting the bytes and splitting the characters agree.
\<close>

datatype error =
    Error string
  | URIError string
  | SyntaxError string
  | TypeError string

text \<open>
  \<open>String.prototype.split\<close> with a one-character separator and no limit: every
  occurrence of the separator cuts, and the empty string gives one empty piece.
\<close>

fun js_split :: "char \<Rightarrow> string \<Rightarrow> string list" where
  "js_split sep [] = [[]]"
| "js_split sep (c # cs) =
     (if c = sep then [] # js_split sep cs
      else (case js_split sep cs of
              [] \<Rightarrow> [[c]]
            | p # ps \<Rightarrow> (c # p) # ps))"

text \<open>\<open>Array.prototype.join\<close> on an array of strings.\<close>

fun js_join :: "string \<Rightarrow> string list \<Rightarrow> string" where
  "js_join sep [] = []"
| "js_join sep [p] = p"
| "js_join sep (p # q # ps) = p @ sep @ js_join sep (q # ps)"

text \<open>
  \<open>decodeURIComponent\<close>, after the Decode operation of ECMAScript: a character other
  than \<open>%\<close> is copied; \<open>%\<close> must be followed by two hexadecimal digits, which give
  one octet; an octet below 128 is the character itself, and an octet from 128 on must start
  a well-formed UTF-8 sequence whose other octets are escaped too. Anything else throws a
  URIError.
\<close>

definition hexDigit :: "char \<Rightarrow> nat option" where
  "hexDigit c =
     (let n = (of_char c :: nat)
      in if 48 \<le> n \<and> n \<le> 57 then Some (n - 48)
         else if 65 \<le> n \<and> n \<le> 70 then Some (n - 55)
         else if 97 \<le> n \<and> n \<le> 102 then Some (n - 87)
         else None)"

datatype token = Lit char | Octet nat

fun unescape :: "string \<Rightarrow> token list option" where
  "unescape [] = Some []"
| "unescape (c # cs) =
     (if c = CHR ''%'' then
        (case cs of
           h # l # rest \<Rightarrow>
             (case (hexDigit h, hexDigit l) of
                (Some a, Some b) \<Rightarrow> map_option ((#) (Octet (16 * a + b))) (unescape rest)
              | _ \<Rightarrow> None)
         | _ \<Rightarrow> None)
      else map_option ((#) (Lit c)) (unescape cs))"

text \<open>
  \<open>wellFormed k lo hi ts\<close>: \<open>k\<close> continuation octets are still owed, the next of
  them within \<open>lo..hi\<close> (the table of well-formed UTF-8 byte sequences).
\<close>

fun wellFormed :: "nat \<Rightarrow> nat \<Rightarrow> nat \<Rightarrow> token list \<Rightarrow> bool" where
  "wellFormed k lo hi [] = (k = 0)"
| "wellFormed 0 lo hi (Lit c # ts) = wellFormed 0 128 191 ts"
| "wellFormed (Suc k) lo hi (Lit c # ts) = False"
| "wellFormed (Suc k) lo hi (Octet b # ts) = (lo \<le> b \<and> b \<le> hi \<and> wellFormed k 128 191 ts)"
| "wellFormed 0 lo hi (Octet b # ts) =
     (if b < 128 then wellFormed 0 128 191 ts
      else if 194 \<le> b \<and> b \<le> 223 then wellFormed 1 128 191 ts
      else if b = 224 then wellFormed 2 160 191 ts
      else if b = 237 then wellFormed 2 128 159 ts
      else if 225 \<le> b \<and> b \<le> 239 then wellFormed 2 128 191 ts
      else if b = 240 then wellFormed 3 144 191 ts
      else if 241 \<le> b \<and> b \<le> 243 then wellFormed 3 128 191 ts
      else if b = 244 then wellFormed 3 128 143 ts
      else False)"

fun emit :: "token \<Rightarrow> char" where
  "emit (Lit c) = c"
| "emit (Octet b) = char_of b"

definition decodeURIComponent :: "string \<Rightarrow> error + string" where
  "decodeURIComponent s =
     (case unescape s of
        None \<Rightarrow> Inl (URIError ''URI malformed'')
      | Some ts \<Rightarrow>
          if wellFormed 0 128 191 ts then Inr (map emit ts)
          else Inl (URIError ''URI malformed''))"

section \<open>Reading and removing the code parameter\<close>

text \<open>
  The loop of \<open>getCodeFromLocation\<close> over the pairs. \<open>const [key, value] =
  pair.split('=')\<close> takes the first two pieces of the pair; \<open>value || ''\<close> is the second
  piece, or the empty string when there is none.
\<close>

fun scanPairs :: "string list \<Rightarrow> error + string option" where
  "scanPairs [] = Inr None"
| "scanPairs (pair # pairs) =
     (case js_split CHR ''='' pair of
        [] \<Rightarrow> scanPairs pairs
      | key # rest \<Rightarrow>
          if key = ''code'' then
            (case decodeURIComponent (case rest of [] \<Rightarrow> [] | v # _ \<Rightarrow> v) of
               Inl e \<Rightarrow> Inl e
             | Inr c \<Rightarrow> Inr (Some c))
          else scanPairs pairs)"

definition getCodeFromLocation :: "string \<Rightarrow> error + string option" where
  "getCodeFromLocation location =
     (case js_split CHR ''?'' location of
        b # search # _ \<Rightarrow> scanPairs (js_split CHR ''&'' search)
      | _ \<Rightarrow> Inr None)"

text \<open>
  The URL that \<open>removeCodeFromLocation\<close> hands to \<open>history.replaceState\<close>, or
  \<open>None\<close> when it returns early (\<open>!search\<close>: no second piece, or an empty one).
\<close>

definition keyOf :: "string list \<Rightarrow> string option" where
  "keyOf keyAndVal = (case keyAndVal of [] \<Rightarrow> None | key # _ \<Rightarrow> Some key)"

definition strippedUrl :: "string \<Rightarrow> string option" where
  "strippedUrl url =
     (case js_split CHR ''?'' url of
        base # search # _ \<Rightarrow>
          if search = [] then None
          else
            (let newSearch =
                   js_join ''&''
                     (map (js_join ''='')
                        (filter (\<lambda>keyAndVal. keyOf keyAndVal \<noteq> Some ''code'')
                           (map (js_split CHR ''='') (js_split CHR ''&'' search))))
             in Some (base @ (if newSearch \<noteq> [] then ''?'' @ newSearch else [])))
      | _ \<Rightarrow> None)"

section \<open>Data\<close>

text \<open>
  The configuration. An optional property is an \<open>option\<close>; \<open>None\<close> is
  \<open>undefined\<close>. The \<open>location\<close> property is never read by the class (it reads
  \<open>window.location\<close>) and is left out.
\<close>

record AuthServiceProps =
  clientId :: string
  clientSecret :: "string option"
  contentType :: "string option"
  provider :: string
  authorizeEndpoint :: "string option"
  tokenEndpoint :: "string option"
  logoutEndpoint :: "string option"
  audience :: "string option"
  redirectUri :: "string option"
  scopes :: "string list"
  prompts :: "string list option"
  autoRefresh :: "bool option"
  refreshSlack :: "int option"
  localStoragePrefix :: "string option"

text \<open>
  The token record, as the token endpoint's JSON gives it. The interface declares every
  field but \<open>expires_at\<close> as present; the class itself tests \<open>refresh_token\<close> and
  \<open>expires_at\<close> for absence, and the cast \<open>json as AuthTokens\<close> checks nothing, so
  every field may be absent here. A number field holds a double whose value is an integer
  (seconds for \<open>expires_in\<close>, milliseconds for \<open>expires_at\<close>), as the interface
  types it; a fractional number, or a JSON value of another type in its place, is not
  represented. \<open>None\<close> in a number field also stands for \<open>NaN\<close> and for an
  infinity, both of which \<open>JSON.stringify\<close> writes as \<open>null\<close>.
\<close>

record AuthTokens =
  id_token :: "string option"
  access_token :: "string option"
  refresh_token :: "string option"
  expires_in :: "int option"
  expires_at :: "int option"
  token_type :: "string option"

text \<open>
  \<open>PKCECodePair\<close> is declared in \<open>./pkce\<close>; these are the two fields the class
  reads.
\<close>

record PKCECodePair =
  codeVerifier :: string
  codeChallenge :: string

text \<open>
  The body of a token request (\<open>TokenRequestBody\<close>); the fields carry the prefix
  \<open>req_\<close> to keep them apart from the configuration's.
\<close>

record TokenRequestBody =
  req_clientId :: string
  req_grantType :: string
  req_redirectUri :: "string option"
  req_refresh_token :: "string option"
  req_clientSecret :: "string option"
  req_code :: "string option"
  req_codeVerifier :: "string option"

text \<open>
  What \<open>fetch\<close> resolves to: the status, and what \<open>response.json()\<close> settles to
  (the parsed record, or the error of an unparsable body). A rejected \<open>fetch\<close> is the
  \<open>Inl\<close> of \<open>error + response\<close>.
\<close>

record response =
  status :: nat
  body :: "error + AuthTokens"

text \<open>
  A text held by \<open>localStorage\<close>: the text \<open>JSON.stringify\<close> gave for a PKCE pair
  or for a token record, represented by the value \<open>JSON.parse\<close> reads back from it, or
  any other text. The class writes a PKCE pair under \<open>pkce\<close>, a token record under
  \<open>auth\<close> and a plain URI under \<open>preAuthUri\<close>; a text of another shape than the one
  asked for is modelled as one that \<open>JSON.parse\<close> rejects.
\<close>

datatype item =
    Text string
  | PkceJson PKCECodePair
  | AuthJson AuthTokens

text \<open>
  What the class does to the outside, in the order it does it. The body of a token request
  is \<open>toUrlEncoded\<close> of the payload; the effect records the payload itself, with the
  URL and the content type.
\<close>

datatype effect =
    Fetch string string TokenRequestBody
  | LocationReplace item
  | LocationReload
  | ConsoleWarn error
  | ConsoleLog "item option"

text \<open>
  The state the class works on: \<open>localStorage\<close>, the visible URL
  (\<open>window.location.href\<close>, rewritten by \<open>history.replaceState\<close>), the field
  \<open>this.timeout\<close>, and the one-shot timers of the runtime that are pending, by handle,
  each with the refresh token its callback has captured and its delay. \<open>window.setTimeout\<close>
  hands out a new handle greater than zero each time.
\<close>

record world =
  storage :: "string \<rightharpoonup> item"
  href :: string
  timeout :: "nat option"
  timers :: "nat \<rightharpoonup> string \<times> int"
  lastHandle :: nat
  effects :: "effect list"

definition perform :: "effect \<Rightarrow> world \<Rightarrow> world" where
  "perform e w = w\<lparr>effects := effects w @ [e]\<rparr>"

text \<open>\<open>a || b\<close> and \<open>!a\<close> on optional strings.\<close>

definition orElse :: "string option \<Rightarrow> string \<Rightarrow> string" where
  "orElse a b = (case a of None \<Rightarrow> b | Some s \<Rightarrow> if s = [] then b else s)"

definition falsyString :: "string option \<Rightarrow> bool" where
  "falsyString a = (case a of None \<Rightarrow> True | Some s \<Rightarrow> s = [])"

section \<open>Numbers\<close>

text \<open>
  A JavaScript number is an IEEE 754 double: 53 significant bits, and every operation gives
  the double nearest to the exact result, the one with an even significand when two are
  equally near. \<open>excessBits a\<close> is the number of bits by which \<open>a\<close> exceeds 53
  bits. \<open>toDouble n\<close> is the double nearest to the integer \<open>n\<close>, or \<open>None\<close>
  when that is an infinity (from \<open>2 ^ 1024\<close> on after rounding).
\<close>

function excessBits :: "nat \<Rightarrow> nat" where
  "excessBits a = (if a < 2 ^ 53 then 0 else Suc (excessBits (a div 2)))"
  by pat_completeness auto
termination
  by (relation "measure id") auto

declare excessBits.simps [simp del]

definition toDouble :: "int \<Rightarrow> int option" where
  "toDouble n =
     (let a = nat \<bar>n\<bar>;
          k = excessBits a;
          q = a div 2 ^ k;
          r = a mod 2 ^ k;
          m = (if 2 ^ k < 2 * r \<or> (2 * r = 2 ^ k \<and> odd q) then q + 1 else q) * 2 ^ k
      in if 2 ^ 1024 \<le> m then None else Some (sgn n * int m))"

text \<open>
  \<open>x + y\<close> and \<open>x * y\<close> on numbers: \<open>undefined\<close>, \<open>NaN\<close> or an infinity
  on either side gives \<open>NaN\<close> or an infinity again.
\<close>

definition jsAdd :: "int option \<Rightarrow> int option \<Rightarrow> int option" where
  "jsAdd x y = (case (x, y) of (Some a, Some b) \<Rightarrow> toDouble (a + b) | _ \<Rightarrow> None)"

definition jsMul :: "int option \<Rightarrow> int option \<Rightarrow> int option" where
  "jsMul x y = (case (x, y) of (Some a, Some b) \<Rightarrow> toDouble (a * b) | _ \<Rightarrow> None)"

section \<open>The token store\<close>

definition storageKey :: "AuthServiceProps \<Rightarrow> string \<Rightarrow> string" where
  "storageKey props key = (case localStoragePrefix props of None \<Rightarrow> [] | Some p \<Rightarrow> p) @ key"

definition getItem :: "AuthServiceProps \<Rightarrow> string \<Rightarrow> world \<Rightarrow> item option" where
  "getItem props key w = storage w (storageKey props key)"

definition haveItem :: "AuthServiceProps \<Rightarrow> string \<Rightarrow> world \<Rightarrow> bool" where
  "haveItem props key w = (getItem props key w \<noteq> None)"

definition removeItem :: "AuthServiceProps \<Rightarrow> string \<Rightarrow> world \<Rightarrow> world" where
  "removeItem props key w = w\<lparr>storage := (storage w)(storageKey props key := None)\<rparr>"

definition setItem :: "AuthServiceProps \<Rightarrow> string \<Rightarrow> item \<Rightarrow> world \<Rightarrow> world" where
  "setItem props key v w = w\<lparr>storage := (storage w)(storageKey props key \<mapsto> v)\<rparr>"

definition getPkce :: "AuthServiceProps \<Rightarrow> world \<Rightarrow> error + PKCECodePair" where
  "getPkce props w =
     (case getItem props ''pkce'' w of
        None \<Rightarrow> Inl (Error ''PKCE pair not found in local storage'')
      | Some (PkceJson pkce) \<Rightarrow> Inr pkce
      | Some _ \<Rightarrow> Inl (SyntaxError ''JSON.parse''))"

definition getAuthTokens :: "AuthServiceProps \<Rightarrow> world \<Rightarrow> error + AuthTokens" where
  "getAuthTokens props w =
     (case getItem props ''auth'' w of
        None \<Rightarrow> Inl (Error ''Auth not found in local storage'')
      | Some (AuthJson auth) \<Rightarrow> Inr auth
      | Some _ \<Rightarrow> Inl (SyntaxError ''JSON.parse''))"

definition slack :: "AuthServiceProps \<Rightarrow> int" where
  "slack props = (case refreshSlack props of None \<Rightarrow> 5 | Some k \<Rightarrow> k)"

text \<open>
  The value \<open>setAuthTokens\<close> gives \<open>expires_at\<close>:
  \<open>now + (auth.expires_in + refreshSlack) * 1000\<close>.
\<close>

definition computedExpiresAt :: "AuthServiceProps \<Rightarrow> int \<Rightarrow> int option \<Rightarrow> int option" where
  "computedExpiresAt props now expiresIn =
     jsAdd (Some now) (jsMul (jsAdd expiresIn (Some (slack props))) (Some 1000))"

definition setAuthTokens :: "AuthServiceProps \<Rightarrow> AuthTokens \<Rightarrow> int \<Rightarrow> world \<Rightarrow> world" where
  "setAuthTokens props auth now w =
     setItem props ''auth''
       (AuthJson (auth\<lparr>expires_at := computedExpiresAt props now (expires_in auth)\<rparr>)) w"

definition isAuthenticated :: "AuthServiceProps \<Rightarrow> world \<Rightarrow> bool" where
  "isAuthenticated props w = haveItem props ''auth'' w"

definition isPending :: "AuthServiceProps \<Rightarrow> world \<Rightarrow> bool" where
  "isPending props w = (haveItem props ''pkce'' w \<and> \<not> isAuthenticated props w)"

section \<open>The session state machine\<close>

definition removeCodeFromLocation :: "world \<Rightarrow> world" where
  "removeCodeFromLocation w =
     (case strippedUrl (href w) of None \<Rightarrow> w | Some url \<Rightarrow> w\<lparr>href := url\<rparr>)"

text \<open>
  \<open>logout\<close>. The query encoder \<open>toUrlEncoded\<close> lives in \<open>./util\<close> and is a
  parameter. The navigation is recorded as an effect; the promise resolves to \<open>true\<close>
  on both branches.
\<close>

definition logout ::
  "((string \<times> string option) list \<Rightarrow> string) \<Rightarrow> AuthServiceProps \<Rightarrow> bool \<Rightarrow> world \<Rightarrow> world" where
  "logout toUrlEncoded props shouldEndSession w =
     (let w1 = removeItem props ''auth'' (removeItem props ''pkce'' w)
      in if shouldEndSession then
           perform (LocationReplace (Text
             (orElse (logoutEndpoint props) (provider props @ ''/logout'') @ ''?'' @
              toUrlEncoded [(''client_id'', Some (clientId props)),
                            (''post_logout_redirect_uri'', redirectUri props)]))) w1
         else perform LocationReload w1)"

definition clearTimeout :: "nat \<Rightarrow> world \<Rightarrow> world" where
  "clearTimeout h w = w\<lparr>timers := (timers w)(h := None)\<rparr>"

definition setTimeout :: "string \<Rightarrow> int \<Rightarrow> world \<Rightarrow> nat \<times> world" where
  "setTimeout refreshToken ms w =
     (let h = Suc (lastHandle w)
      in (h, w\<lparr>timers := (timers w)(h \<mapsto> (refreshToken, ms)), lastHandle := h\<rparr>))"

text \<open>
  The synchronous part of \<open>armRefreshTimer\<close>; the callback it schedules is
  \<open>refreshCallback\<close> below, run by \<open>timerFires\<close>.
\<close>

definition armRefreshTimer :: "string \<Rightarrow> int \<Rightarrow> world \<Rightarrow> world" where
  "armRefreshTimer refreshToken timeoutDuration w =
     (let w1 = (case timeout w of
                  None \<Rightarrow> w
                | Some h \<Rightarrow> if h = 0 then w else clearTimeout h w);
          (h', w2) = setTimeout refreshToken timeoutDuration w1
      in w2\<lparr>timeout := Some h'\<rparr>)"

text \<open>
  \<open>startTimer\<close>. The difference \<open>expiresAt - now\<close> of two doubles is positive,
  zero or negative exactly when the difference of the integers is, so the comparison with 0
  is made on the integers.
\<close>

definition startTimer :: "AuthServiceProps \<Rightarrow> int \<Rightarrow> world \<Rightarrow> (error + unit) \<times> world" where
  "startTimer props now w =
     (if \<not> isAuthenticated props w then (Inr (), w)
      else
        (case getAuthTokens props w of
           Inl e \<Rightarrow> (Inl e, w)
         | Inr authTokens \<Rightarrow>
             (case (expires_at authTokens, refresh_token authTokens) of
                (Some expiresAt, Some refreshToken) \<Rightarrow>
                  if expiresAt = 0 \<or> refreshToken = [] then (Inr (), w)
                  else if expiresAt - now > 0
                    then (Inr (), armRefreshTimer refreshToken (expiresAt - now) w)
                    else (Inr (), removeCodeFromLocation (removeItem props ''auth'' w))
              | _ \<Rightarrow> (Inr (), w))))"

text \<open>
  \<open>fetchToken\<close> up to the point where the request leaves: the payload, and the
  \<open>fetch\<close> recorded as an effect. Reading the PKCE pair may throw first.
\<close>

definition fetchToken_request ::
  "AuthServiceProps \<Rightarrow> string \<Rightarrow> bool \<Rightarrow> world \<Rightarrow> (error + TokenRequestBody) \<times> world" where
  "fetchToken_request props c isRefresh w =
     (let payload = \<lparr>req_clientId = clientId props,
                     req_grantType = ''authorization_code'',
                     req_redirectUri = redirectUri props,
                     req_refresh_token = None,
                     req_clientSecret =
                       (if falsyString (clientSecret props) then None else clientSecret props),
                     req_code = None,
                     req_codeVerifier = None\<rparr>;
          send = (\<lambda>p. (Inr p,
                   perform (Fetch (orElse (tokenEndpoint props) (provider props @ ''/token''))
                              (orElse (contentType props) ''application/x-www-form-urlencoded'')
                              p) w))
      in if isRefresh then
           send (payload\<lparr>req_grantType := ''refresh_token'', req_refresh_token := Some c\<rparr>)
         else
           (case getPkce props w of
              Inl e \<Rightarrow> (Inl e, w)
            | Inr pkce \<Rightarrow>
                send (payload\<lparr>req_code := Some c,
                               req_codeVerifier := Some (codeVerifier pkce)\<rparr>)))"

text \<open>
  \<open>fetchToken\<close> from the point where \<open>fetch\<close> settles with \<open>net\<close>. The clock is
  read twice: \<open>tSet\<close> in \<open>setAuthTokens\<close>, \<open>tStart\<close> in \<open>startTimer\<close>.
\<close>

definition fetchToken_settled ::
  "AuthServiceProps \<Rightarrow> bool \<Rightarrow> TokenRequestBody \<Rightarrow> error + response \<Rightarrow> int \<Rightarrow> int \<Rightarrow> world
     \<Rightarrow> (error + AuthTokens) \<times> world" where
  "fetchToken_settled props isRefresh payload net tSet tStart w =
     (case net of
        Inl e \<Rightarrow> (Inl e, w)
      | Inr resp \<Rightarrow>
          (let w1 = removeItem props ''pkce'' w
           in case body resp of
                Inl e \<Rightarrow> (Inl e, w1)
              | Inr json \<Rightarrow>
                  (let json' = (if isRefresh \<and> falsyString (refresh_token json)
                                then json\<lparr>refresh_token := req_refresh_token payload\<rparr>
                                else json);
                       w2 = setAuthTokens props json' tSet w1
                   in if autoRefresh props \<noteq> Some False then
                        (case startTimer props tStart w2 of
                           (Inl e, w3) \<Rightarrow> (Inl e, w3)
                         | (Inr _, w3) \<Rightarrow> (getAuthTokens props w3, w3))
                      else (getAuthTokens props w2, w2))))"

definition fetchToken ::
  "AuthServiceProps \<Rightarrow> string \<Rightarrow> bool \<Rightarrow> error + response \<Rightarrow> int \<Rightarrow> int \<Rightarrow> world
     \<Rightarrow> (error + AuthTokens) \<times> world" where
  "fetchToken props c isRefresh net tSet tStart w =
     (case fetchToken_request props c isRefresh w of
        (Inl e, w1) \<Rightarrow> (Inl e, w1)
      | (Inr payload, w1) \<Rightarrow> fetchToken_settled props isRefresh payload net tSet tStart w1)"

text \<open>
  The callback that \<open>armRefreshTimer\<close> schedules, with its \<open>then\<close> and \<open>catch\<close>
  handlers; \<open>tThen\<close> is the clock read in the \<open>then\<close> handler. A refresh exchange
  that resolves always carries a refresh token (\<open>fetchToken\<close> puts the one sent where the
  response has none), so the \<open>None\<close> branch below is never taken.
\<close>

definition refreshCallback ::
  "AuthServiceProps \<Rightarrow> string \<Rightarrow> error + response \<Rightarrow> int \<Rightarrow> int \<Rightarrow> int \<Rightarrow> world \<Rightarrow> world" where
  "refreshCallback props refreshToken net tSet tStart tThen w =
     (case fetchToken props refreshToken True net tSet tStart w of
        (Inr tokens, w1) \<Rightarrow>
          (case expires_at tokens of
             None \<Rightarrow> w1
           | Some expiresAt \<Rightarrow>
               if expiresAt = 0 then w1
               else if expiresAt - tThen > 0 then
                 armRefreshTimer
                   (case refresh_token tokens of None \<Rightarrow> refreshToken | Some r \<Rightarrow> r)
                   (expiresAt - tThen) w1
               else removeCodeFromLocation (removeItem props ''auth'' w1))
      | (Inl e, w1) \<Rightarrow>
          perform (ConsoleWarn e) (removeCodeFromLocation (removeItem props ''auth'' w1)))"

text \<open>The runtime runs the callback of the pending timer \<open>h\<close>; the timer is one-shot.\<close>

definition timerFires ::
  "AuthServiceProps \<Rightarrow> nat \<Rightarrow> error + response \<Rightarrow> int \<Rightarrow> int \<Rightarrow> int \<Rightarrow> world \<Rightarrow> world" where
  "timerFires props h net tSet tStart tThen w =
     (case timers w h of
        None \<Rightarrow> w
      | Some (refreshToken, ms) \<Rightarrow>
          refreshCallback props refreshToken net tSet tStart tThen
            (w\<lparr>timers := (timers w)(h := None)\<rparr>))"

definition restoreUri :: "AuthServiceProps \<Rightarrow> world \<Rightarrow> world" where
  "restoreUri props w =
     (let uri = getItem props ''preAuthUri'' w;
          w1 = perform (ConsoleLog uri) (removeItem props ''preAuthUri'' w);
          w2 = (case uri of None \<Rightarrow> w1 | Some u \<Rightarrow> perform (LocationReplace u) w1)
      in removeCodeFromLocation w2)"

text \<open>
  The constructor, with the code exchange it starts run to its end: \<open>net\<close> is what the
  \<open>fetch\<close> settles to. The constructor itself throws only when
  \<open>decodeURIComponent\<close> or \<open>startTimer\<close> does; a failed exchange is caught and
  logged.
\<close>

definition AuthService_new ::
  "AuthServiceProps \<Rightarrow> error + response \<Rightarrow> int \<Rightarrow> int \<Rightarrow> world \<Rightarrow> (error + unit) \<times> world" where
  "AuthService_new props net tSet tStart w =
     (case getCodeFromLocation (href w) of
        Inl e \<Rightarrow> (Inl e, w)
      | Inr (Some c) \<Rightarrow>
          (case fetchToken props c False net tSet tStart w of
             (Inr tokens, w1) \<Rightarrow> (Inr (), restoreUri props w1)
           | (Inl e, w1) \<Rightarrow>
               (Inr (),
                perform (ConsoleWarn e)
                  (removeCodeFromLocation
                     (removeItem props ''auth'' (removeItem props ''pkce'' w1)))))
      | Inr None \<Rightarrow>
          if autoRefresh props = Some True then startTimer props tStart w else (Inr (), w))"

section \<open>Sequences of calls and timer expiries\<close>

text \<open>
  What can happen to one instance after its construction: a call of one of its methods, or
  the runtime firing a pending timer. An exchange is run to its end within the event that
  starts it.
\<close>

datatype event =
    ArmRefreshTimer string int
  | StartTimer int
  | FetchToken string bool "error + response" int int
  | TimerFires nat "error + response" int int int
  | Logout bool

fun step ::
  "((string \<times> string option) list \<Rightarrow> string) \<Rightarrow> AuthServiceProps \<Rightarrow> event \<Rightarrow> world \<Rightarrow> world" where
  "step enc props (ArmRefreshTimer refreshToken ms) w = armRefreshTimer refreshToken ms w"
| "step enc props (StartTimer now) w = snd (startTimer props now w)"
| "step enc props (FetchToken c isRefresh net tSet tStart) w =
     snd (fetchToken props c isRefresh net tSet tStart w)"
| "step enc props (TimerFires h net tSet tStart tThen) w =
     timerFires props h net tSet tStart tThen w"
| "step enc props (Logout shouldEndSession) w = logout enc props shouldEndSession w"

fun run ::
  "((string \<times> string option) list \<Rightarrow> string) \<Rightarrow> AuthServiceProps \<Rightarrow> event list \<Rightarrow> world \<Rightarrow> world" where
  "run enc props [] w = w"
| "run enc props (ev # evs) w = run enc props evs (step enc props ev w)"

text \<open>
  Every pending timer is the one whose handle \<open>this.timeout\<close> holds, and that handle
  is one \<open>armRefreshTimer\<close> would clear.
\<close>

definition pendingOwned :: "world \<Rightarrow> bool" where
  "pendingOwned w \<longleftrightarrow> (\<forall>h \<in> dom (timers w). timeout w = Some h \<and> 0 < h)"

section \<open>Example values\<close>

definition exampleProps :: AuthServiceProps where
  "exampleProps =
     \<lparr>clientId = ''client'', clientSecret = None, contentType = None,
      provider = ''https://idp'', authorizeEndpoint = None, tokenEndpoint = None,
      logoutEndpoint = None, audience = None, redirectUri = Some ''https://a/b'',
      scopes = [''openid''], prompts = None, autoRefresh = Some True, refreshSlack = None,
      localStoragePrefix = Some ''app_''\<rparr>"

definition exampleTokens :: "string option \<Rightarrow> int option \<Rightarrow> int option \<Rightarrow> AuthTokens" where
  "exampleTokens r e x =
     \<lparr>id_token = Some ''id'', access_token = Some ''at'', refresh_token = r,
      expires_in = e, expires_at = x, token_type = Some ''Bearer''\<rparr>"

definition examplePkce :: PKCECodePair where
  "examplePkce = \<lparr>codeVerifier = ''verifier'', codeChallenge = ''challenge''\<rparr>"

definition exampleWorld :: "string \<Rightarrow> (string \<rightharpoonup> item) \<Rightarrow> world" where
  "exampleWorld url st =
     \<lparr>storage = st, href = url, timeout = None, timers = Map.empty, lastHandle = 0,
      effects = []\<rparr>"

definition exampleEncoder :: "(string \<times> string option) list \<Rightarrow> string" where
  "exampleEncoder query =
     js_join ''&'' (map (\<lambda>(k, v). k @ ''='' @ (case v of None \<Rightarrow> [] | Some s \<Rightarrow> s)) query)"

text \<open>
  What an error object such as \<open>{"error": "invalid_grant"}\<close> is read as: none of the
  fields of a token record is present.
\<close>

definition exampleErrorBody :: AuthTokens where
  "exampleErrorBody =
     \<lparr>id_token = None, access_token = None, refresh_token = None, expires_in = None,
      expires_at = None, token_type = None\<rparr>"

definition exampleUrl :: string where
  "exampleUrl = ''https://a/b?x=1&code=XYZ&y=2''"

definition exampleResponse :: "nat \<Rightarrow> string option \<Rightarrow> response" where
  "exampleResponse st r = \<lparr>status = st, body = Inr (exampleTokens r (Some 3600) None)\<rparr>"

section \<open>Splitting and joining\<close>

lemma js_split_nonempty: "js_split sep s \<noteq> []"
  by (induction s) (auto split: list.splits)

lemma js_split_no_sep: "sep \<notin> set s \<Longrightarrow> js_split sep s = [s]"
  by (induction s) auto

lemma js_split_at_sep: "sep \<notin> set a \<Longrightarrow> js_split sep (a @ sep # b) = a # js_split sep b"
  by (induction a) auto

lemma js_join_push: "js_join sep ((c # p) # ps) = c # js_join sep (p # ps)"
  by (cases ps) simp_all

lemma js_join_empty_first: "ps \<noteq> [] \<Longrightarrow> js_join sep ([] # ps) = sep @ js_join sep ps"
  by (cases ps) simp_all

lemma js_join_js_split: "js_join [sep] (js_split sep s) = s"
proof (induction s)
  case Nil
  show ?case by simp
next
  case (Cons c cs)
  show ?case
  proof (cases "c = sep")
    case True
    with Cons show ?thesis
      by (simp add: js_join_empty_first js_split_nonempty)
  next
    case False
    obtain p ps where sp: "js_split sep cs = p # ps"
      using js_split_nonempty[of sep cs] by (cases "js_split sep cs") auto
    with False Cons show ?thesis
      by (simp add: js_join_push)
  qed
qed

lemma rejoined_parameters:
  "map (js_join ''='') (filter (\<lambda>keyAndVal. keyOf keyAndVal \<noteq> Some ''code'') (map (js_split CHR ''='') ps))
     = filter (\<lambda>p. keyOf (js_split CHR ''='' p) \<noteq> Some ''code'') ps"
  by (induction ps) (simp_all add: js_join_js_split)

lemma strippedUrl_single_question_mark:
  assumes "CHR ''?'' \<notin> set base" and "CHR ''?'' \<notin> set search" and "search \<noteq> []"
  shows "strippedUrl (base @ ''?'' @ search) =
     Some (base @
       (let kept = js_join ''&''
              (filter (\<lambda>p. keyOf (js_split CHR ''='' p) \<noteq> Some ''code'')
                 (js_split CHR ''&'' search))
        in if kept \<noteq> [] then ''?'' @ kept else []))"
  using assms
  by (simp add: strippedUrl_def js_split_at_sep js_split_no_sep rejoined_parameters Let_def)

lemma scanPairs_first_occurrence:
  assumes "\<forall>p \<in> set ps. keyOf (js_split CHR ''='' p) \<noteq> Some ''code''"
    and "js_split CHR ''='' pair = ''code'' # rest"
  shows "scanPairs (ps @ pair # qs) =
     (case decodeURIComponent (case rest of [] \<Rightarrow> [] | v # _ \<Rightarrow> v) of
        Inl e \<Rightarrow> Inl e | Inr c \<Rightarrow> Inr (Some c))"
  using assms
  by (induction ps) (auto simp: keyOf_def split: list.splits)

text \<open>The two URLs the specification gives for code stripping.\<close>

lemma strippedUrl_examples:
  "strippedUrl ''https://a/b?x=1&code=ABC&y=2'' = Some ''https://a/b?x=1&y=2''"
  "strippedUrl ''https://a/b?code=ABC'' = Some ''https://a/b''"
  by (simp_all add: strippedUrl_def keyOf_def)

section \<open>Doubles on integers\<close>

lemma excessBits_small: "a < 2 ^ 53 \<Longrightarrow> excessBits a = 0"
  by (simp add: excessBits.simps)

text \<open>An integer of at most 53 bits is a double: no operation that gives one rounds.\<close>

lemma toDouble_exact:
  assumes "\<bar>n\<bar> < 2 ^ 53"
  shows "toDouble n = Some n"
proof -
  have small: "nat \<bar>n\<bar> < 2 ^ 53" using assms by (simp add: nat_less_iff)
  have k: "excessBits (nat \<bar>n\<bar>) = 0" by (rule excessBits_small[OF small])
  have "\<not> (2 :: nat) ^ 1024 \<le> nat \<bar>n\<bar>"
  proof -
    have "(2 :: nat) ^ 53 \<le> 2 ^ 1024" by (rule power_increasing) simp_all
    with small show ?thesis by simp
  qed
  moreover have "sgn n * int (nat \<bar>n\<bar>) = n" by (simp add: mult_sgn_abs)
  ultimately show ?thesis by (simp add: toDouble_def k)
qed

lemma computedExpiresAt_exact:
  assumes "\<bar>e + slack props\<bar> * 1000 + \<bar>now\<bar> < 2 ^ 53"
  shows "computedExpiresAt props now (Some e) = Some (now + (e + slack props) * 1000)"
proof -
  define s where "s = \<bar>e + slack props\<bar>"
  define bound :: int where "bound = 2 ^ 53"
  have b: "s * 1000 + \<bar>now\<bar> < bound" using assms by (simp add: s_def bound_def)
  have s0: "0 \<le> s" by (simp add: s_def)
  have p: "\<bar>(e + slack props) * 1000\<bar> = s * 1000" unfolding s_def abs_mult by simp
  have 1: "\<bar>e + slack props\<bar> < 2 ^ 53"
    using b s0 unfolding s_def[symmetric] bound_def[symmetric] by linarith
  have 2: "\<bar>(e + slack props) * 1000\<bar> < 2 ^ 53"
    using b unfolding p bound_def[symmetric] by linarith
  have "\<bar>now + (e + slack props) * 1000\<bar> \<le> \<bar>now\<bar> + \<bar>(e + slack props) * 1000\<bar>"
    by (rule abs_triangle_ineq)
  hence 3: "\<bar>now + (e + slack props) * 1000\<bar> < 2 ^ 53"
    using b unfolding p bound_def[symmetric] by linarith
  have "jsAdd (Some e) (Some (slack props)) = Some (e + slack props)"
    by (simp only: jsAdd_def prod.case option.case toDouble_exact[OF 1])
  moreover have "jsMul (Some (e + slack props)) (Some 1000) = Some ((e + slack props) * 1000)"
    by (simp only: jsMul_def prod.case option.case toDouble_exact[OF 2])
  moreover have "jsAdd (Some now) (Some ((e + slack props) * 1000))
      = Some (now + (e + slack props) * 1000)"
    by (simp only: jsAdd_def prod.case option.case toDouble_exact[OF 3])
  ultimately show ?thesis by (simp only: computedExpiresAt_def)
qed

section \<open>What each operation leaves alone\<close>

lemma storageKey_eq [simp]: "storageKey props k = storageKey props k' \<longleftrightarrow> k = k'"
  by (simp add: storageKey_def)

lemma getItem_removeItem [simp]:
  "getItem props k (removeItem props k' w) = (if k = k' then None else getItem props k w)"
  by (simp add: getItem_def removeItem_def)

lemma getItem_setItem [simp]:
  "getItem props k (setItem props k' v w) = (if k = k' then Some v else getItem props k w)"
  by (simp add: getItem_def setItem_def)

lemma getItem_perform [simp]: "getItem props k (perform e w) = getItem props k w"
  by (simp add: getItem_def perform_def)

lemma getItem_removeCodeFromLocation [simp]:
  "getItem props k (removeCodeFromLocation w) = getItem props k w"
  by (simp add: getItem_def removeCodeFromLocation_def split: option.splits)

lemma getItem_armRefreshTimer [simp]:
  "getItem props k (armRefreshTimer r ms w) = getItem props k w"
  by (simp add: getItem_def armRefreshTimer_def setTimeout_def clearTimeout_def Let_def
      split: option.splits)

lemma getItem_setAuthTokens_auth:
  "getItem props ''auth'' (setAuthTokens props auth now w) =
     Some (AuthJson (auth\<lparr>expires_at :=
        computedExpiresAt props now (expires_in auth)\<rparr>))"
  by (simp add: setAuthTokens_def)

lemma getAuthTokens_Inr:
  "getAuthTokens props w = Inr a \<longleftrightarrow> getItem props ''auth'' w = Some (AuthJson a)"
  by (auto simp: getAuthTokens_def split: option.splits item.splits)

lemma timers_perform [simp]: "timers (perform e w) = timers w"
  and timeout_perform [simp]: "timeout (perform e w) = timeout w"
  and href_perform [simp]: "href (perform e w) = href w"
  by (simp_all add: perform_def)

lemma effects_perform [simp]: "effects (perform e w) = effects w @ [e]"
  by (simp add: perform_def)

lemma timers_removeItem [simp]: "timers (removeItem props k w) = timers w"
  and timeout_removeItem [simp]: "timeout (removeItem props k w) = timeout w"
  and href_removeItem [simp]: "href (removeItem props k w) = href w"
  and effects_removeItem [simp]: "effects (removeItem props k w) = effects w"
  by (simp_all add: removeItem_def)

lemma timers_setItem [simp]: "timers (setItem props k v w) = timers w"
  and timeout_setItem [simp]: "timeout (setItem props k v w) = timeout w"
  and href_setItem [simp]: "href (setItem props k v w) = href w"
  and effects_setItem [simp]: "effects (setItem props k v w) = effects w"
  by (simp_all add: setItem_def)

lemma timers_removeCodeFromLocation [simp]: "timers (removeCodeFromLocation w) = timers w"
  and timeout_removeCodeFromLocation [simp]: "timeout (removeCodeFromLocation w) = timeout w"
  and effects_removeCodeFromLocation [simp]: "effects (removeCodeFromLocation w) = effects w"
  by (simp_all add: removeCodeFromLocation_def split: option.splits)

lemma href_removeCodeFromLocation:
  "href (removeCodeFromLocation w) = (case strippedUrl (href w) of None \<Rightarrow> href w | Some url \<Rightarrow> url)"
  by (simp add: removeCodeFromLocation_def split: option.splits)

lemma getItem_restoreUri:
  "getItem props k (restoreUri props w) = (if k = ''preAuthUri'' then None else getItem props k w)"
  by (simp add: restoreUri_def Let_def split: option.splits)

lemma timers_logout: "timers (logout enc props b w) = timers w"
  by (simp add: logout_def Let_def)

lemma getItem_logout:
  "getItem props k (logout enc props b w) = (if k = ''auth'' \<or> k = ''pkce'' then None else getItem props k w)"
  by (simp add: logout_def Let_def)

section \<open>Timers and exchanges, step by step\<close>

lemma startTimer_on_record:
  assumes "getItem props ''auth'' w = Some (AuthJson a)"
  shows "startTimer props now w =
     (Inr (),
      case (expires_at a, refresh_token a) of
        (Some expiresAt, Some refreshToken) \<Rightarrow>
          if expiresAt = 0 \<or> refreshToken = [] then w
          else if expiresAt - now > 0 then armRefreshTimer refreshToken (expiresAt - now) w
          else removeCodeFromLocation (removeItem props ''auth'' w)
      | _ \<Rightarrow> w)"
  using assms
  by (simp add: startTimer_def isAuthenticated_def haveItem_def getAuthTokens_def
      split: option.splits)

lemma startTimer_other_key:
  "k \<noteq> ''auth'' \<Longrightarrow> getItem props k (snd (startTimer props now w)) = getItem props k w"
  by (auto simp: startTimer_def split: sum.splits option.splits prod.splits)

lemma startTimer_auth:
  "getItem props ''auth'' (snd (startTimer props now w)) = None
   \<or> getItem props ''auth'' (snd (startTimer props now w)) = getItem props ''auth'' w"
  by (auto simp: startTimer_def split: sum.splits option.splits prod.splits)

lemma fetchToken_request_cases:
  "fetchToken_request props c isRefresh w = (r, w1) \<Longrightarrow>
     (\<exists>e. r = Inl e \<and> w1 = w \<and> \<not> isRefresh \<and> getPkce props w = Inl e)
   \<or> (\<exists>p eff. r = Inr p \<and> w1 = perform eff w \<and> (isRefresh \<or> (\<exists>k. getPkce props w = Inr k))
        \<and> (isRefresh \<longrightarrow> req_refresh_token p = Some c))"
  by (auto simp: fetchToken_request_def Let_def split: sum.splits if_splits)

lemma fetchToken_settled_Inr:
  assumes "fetchToken_settled props isRefresh payload net tSet tStart w = (Inr a, w')"
  shows "\<exists>resp json. net = Inr resp \<and> body resp = Inr json
     \<and> getItem props ''auth'' w' = Some (AuthJson a)
     \<and> a = (if isRefresh \<and> falsyString (refresh_token json)
            then json\<lparr>refresh_token := req_refresh_token payload\<rparr> else json)
           \<lparr>expires_at := computedExpiresAt props tSet (expires_in json)\<rparr>"
proof -
  from assms obtain resp :: response where net: "net = Inr resp"
    by (cases net) (auto simp: fetchToken_settled_def)
  from assms net obtain json where json: "body resp = Inr json"
    by (cases "body resp") (auto simp: fetchToken_settled_def Let_def)
  define json' where "json' = (if isRefresh \<and> falsyString (refresh_token json)
            then json\<lparr>refresh_token := req_refresh_token payload\<rparr> else json)"
  define w2 where "w2 = setAuthTokens props json' tSet (removeItem props ''pkce'' w)"
  have w2: "getItem props ''auth'' w2 = Some (AuthJson (json'\<lparr>expires_at :=
        computedExpiresAt props tSet (expires_in json')\<rparr>))"
    unfolding w2_def by (rule getItem_setAuthTokens_auth)
  have fin: "getAuthTokens props w' = Inr a"
    using assms net json
    by (auto simp: fetchToken_settled_def Let_def json'_def w2_def
        split: if_splits sum.splits prod.splits)
  hence a: "getItem props ''auth'' w' = Some (AuthJson a)"
    by (simp add: getAuthTokens_Inr)
  have "w' = w2 \<or> w' = snd (startTimer props tStart w2)"
    using assms net json
    by (auto simp: fetchToken_settled_def Let_def json'_def w2_def
        split: if_splits sum.splits prod.splits)
  with startTimer_auth[of props tStart w2] a w2
  have "a = json'\<lparr>expires_at :=
        computedExpiresAt props tSet (expires_in json')\<rparr>"
    by auto
  moreover have "expires_in json' = expires_in json" by (simp add: json'_def)
  ultimately show ?thesis using net json a by (auto simp: json'_def)
qed

lemma fetchToken_Inr:
  assumes "fetchToken props c isRefresh net tSet tStart w = (Inr a, w')"
  shows "\<exists>resp json. net = Inr resp \<and> body resp = Inr json
     \<and> getItem props ''auth'' w' = Some (AuthJson a)
     \<and> a = (if isRefresh \<and> falsyString (refresh_token json)
            then json\<lparr>refresh_token := Some c\<rparr> else json)
           \<lparr>expires_at := computedExpiresAt props tSet (expires_in json)\<rparr>"
proof -
  obtain r w1 where req: "fetchToken_request props c isRefresh w = (r, w1)"
    by (cases "fetchToken_request props c isRefresh w")
  with assms obtain p where p: "r = Inr p"
    and set: "fetchToken_settled props isRefresh p net tSet tStart w1 = (Inr a, w')"
    by (cases r) (auto simp: fetchToken_def)
  from fetchToken_request_cases[OF req] p
  have "isRefresh \<longrightarrow> req_refresh_token p = Some c" by auto
  with fetchToken_settled_Inr[OF set] show ?thesis by auto
qed

text \<open>
  A refresh exchange that resolves carries a refresh token: the \<open>None\<close> branch of
  \<open>refreshCallback\<close> is never taken.
\<close>

lemma refresh_result_has_token:
  assumes "fetchToken props c True net tSet tStart w = (Inr a, w')"
  shows "refresh_token a \<noteq> None"
proof -
  from fetchToken_Inr[OF assms] obtain json where
    "a = (if True \<and> falsyString (refresh_token json)
            then json\<lparr>refresh_token := Some c\<rparr> else json)
           \<lparr>expires_at := computedExpiresAt props tSet (expires_in json)\<rparr>"
    by blast
  thus ?thesis by (cases "refresh_token json") (auto simp: falsyString_def split: if_splits)
qed

lemma fetchToken_refresh_unfold:
  "fetchToken props c True (Inr resp) tSet tStart w =
     fetchToken_settled props True
       \<lparr>req_clientId = clientId props, req_grantType = ''refresh_token'',
        req_redirectUri = redirectUri props, req_refresh_token = Some c,
        req_clientSecret = (if falsyString (clientSecret props) then None else clientSecret props),
        req_code = None, req_codeVerifier = None\<rparr>
       (Inr resp) tSet tStart
       (perform (Fetch (orElse (tokenEndpoint props) (provider props @ ''/token''))
                   (orElse (contentType props) ''application/x-www-form-urlencoded'')
                   \<lparr>req_clientId = clientId props, req_grantType = ''refresh_token'',
                    req_redirectUri = redirectUri props, req_refresh_token = Some c,
                    req_clientSecret = (if falsyString (clientSecret props) then None else clientSecret props),
                    req_code = None, req_codeVerifier = None\<rparr>) w)"
  by (simp add: fetchToken_def fetchToken_request_def Let_def)

lemma fetchToken_Inr_pkce:
  assumes "fetchToken props c isRefresh net tSet tStart w = (Inr a, w')"
  shows "getItem props ''pkce'' w' = None"
    and "getItem props ''preAuthUri'' w' = getItem props ''preAuthUri'' w"
proof -
  obtain r w1 where req: "fetchToken_request props c isRefresh w = (r, w1)"
    by (cases "fetchToken_request props c isRefresh w")
  with assms obtain p where p: "r = Inr p"
    and set: "fetchToken_settled props isRefresh p net tSet tStart w1 = (Inr a, w')"
    by (cases r) (auto simp: fetchToken_def)
  from fetchToken_request_cases[OF req] p obtain eff where w1: "w1 = perform eff w"
    by auto
  from fetchToken_settled_Inr[OF set] obtain resp :: response and json where
    net: "net = Inr resp" "body resp = Inr json"
    by blast
  define json' where "json' = (if isRefresh \<and> falsyString (refresh_token json)
            then json\<lparr>refresh_token := req_refresh_token p\<rparr> else json)"
  define w2 where "w2 = setAuthTokens props json' tSet (removeItem props ''pkce'' w1)"
  have "w' = w2 \<or> w' = snd (startTimer props tStart w2)"
    using set net
    by (auto simp: fetchToken_settled_def Let_def json'_def w2_def
        split: if_splits sum.splits prod.splits)
  moreover have "getItem props ''pkce'' w2 = None"
    "getItem props ''preAuthUri'' w2 = getItem props ''preAuthUri'' w"
    by (simp_all add: w2_def setAuthTokens_def w1)
  ultimately show "getItem props ''pkce'' w' = None"
    and "getItem props ''preAuthUri'' w' = getItem props ''preAuthUri'' w"
    by (auto simp: startTimer_other_key)
qed

lemma fetchToken_settled_fresh:
  assumes "body resp = Inr json"
    and "\<forall>x. computedExpiresAt props tSet (expires_in json) = Some x \<longrightarrow> tStart < x"
  shows "\<exists>a w'. fetchToken_settled props isRefresh p (Inr resp) tSet tStart w = (Inr a, w')
           \<and> getItem props ''auth'' w' = Some (AuthJson a)
           \<and> expires_at a = computedExpiresAt props tSet (expires_in json)"
proof -
  define json' where "json' = (if isRefresh \<and> falsyString (refresh_token json)
            then json\<lparr>refresh_token := req_refresh_token p\<rparr> else json)"
  define a where "a = json'\<lparr>expires_at := computedExpiresAt props tSet (expires_in json)\<rparr>"
  define w2 where "w2 = setAuthTokens props json' tSet (removeItem props ''pkce'' w)"
  have ein: "expires_in json' = expires_in json" by (simp add: json'_def)
  have w2: "getItem props ''auth'' w2 = Some (AuthJson a)"
    by (simp add: w2_def a_def getItem_setAuthTokens_auth ein)
  have ea: "expires_at a = computedExpiresAt props tSet (expires_in json)" by (simp add: a_def)
  obtain w3 where st: "startTimer props tStart w2 = (Inr (), w3)"
    and w3: "getItem props ''auth'' w3 = Some (AuthJson a)"
    using w2 ea assms(2) by (auto simp: startTimer_on_record[OF w2] split: option.splits)
  have "fetchToken_settled props isRefresh p (Inr resp) tSet tStart w
          = (if autoRefresh props \<noteq> Some False then (Inr a, w3) else (Inr a, w2))"
    using assms(1) st w2 w3
    by (simp add: fetchToken_settled_def Let_def json'_def[symmetric] w2_def[symmetric]
        getAuthTokens_def)
  with w2 w3 ea show ?thesis by auto
qed

lemma refreshCallback_fresh:
  assumes "body resp = Inr json"
    and "\<forall>x. computedExpiresAt props tSet (expires_in json) = Some x \<longrightarrow> tStart < x"
    and "\<forall>x. computedExpiresAt props tSet (expires_in json) = Some x \<longrightarrow> tThen < x"
  shows "isAuthenticated props (refreshCallback props r (Inr resp) tSet tStart tThen w)"
proof -
  obtain p w0 where req: "fetchToken_request props r True w = (Inr p, w0)"
    by (simp add: fetchToken_request_def Let_def)
  from fetchToken_settled_fresh[OF assms(1,2), where isRefresh=True and p=p and w=w0]
  obtain a w' where
    set: "fetchToken_settled props True p (Inr resp) tSet tStart w0 = (Inr a, w')"
    and au: "getItem props ''auth'' w' = Some (AuthJson a)"
    and ea: "expires_at a = computedExpiresAt props tSet (expires_in json)"
    by blast
  from req set have run: "fetchToken props r True (Inr resp) tSet tStart w = (Inr a, w')"
    by (simp add: fetchToken_def)
  show ?thesis
  proof (cases "expires_at a")
    case None
    with run au show ?thesis
      by (simp add: refreshCallback_def isAuthenticated_def haveItem_def)
  next
    case (Some x)
    with ea assms(3) have "tThen < x" by simp
    with run au Some show ?thesis
      by (simp add: refreshCallback_def isAuthenticated_def haveItem_def)
  qed
qed

section \<open>One pending timer\<close>

lemma pendingOwned_card:
  assumes "pendingOwned w"
  shows "finite (dom (timers w)) \<and> card (dom (timers w)) \<le> 1"
proof -
  have sub: "dom (timers w) \<subseteq> set_option (timeout w)"
    using assms by (auto simp: pendingOwned_def)
  have fin: "finite (set_option (timeout w))" and c: "card (set_option (timeout w)) \<le> 1"
    by (cases "timeout w"; simp)+
  from sub fin have "finite (dom (timers w))" by (rule finite_subset)
  moreover from sub fin have "card (dom (timers w)) \<le> card (set_option (timeout w))"
    by (simp add: card_mono)
  ultimately show ?thesis using c by simp
qed

lemma cleared_timers:
  assumes "pendingOwned w"
  shows "timers (case timeout w of None \<Rightarrow> w | Some h \<Rightarrow> if h = 0 then w else clearTimeout h w)
           = Map.empty"
proof (cases "timeout w")
  case None
  have "dom (timers w) = {}"
  proof (rule ccontr)
    assume "dom (timers w) \<noteq> {}"
    then obtain h where "h \<in> dom (timers w)" by blast
    with assms have "timeout w = Some h" unfolding pendingOwned_def by blast
    with None show False by simp
  qed
  with None show ?thesis by simp
next
  case (Some h)
  have own: "\<And>k. k \<in> dom (timers w) \<Longrightarrow> k = h \<and> 0 < h"
    using assms Some unfolding pendingOwned_def by auto
  show ?thesis
  proof (cases "h = 0")
    case True
    have "dom (timers w) = {}" using own True by blast
    with Some True show ?thesis by simp
  next
    case False
    have "(timers w)(h := None) = Map.empty"
    proof (rule ext)
      fix k
      show "((timers w)(h := None)) k = None"
      proof (cases "k = h")
        case True
        then show ?thesis by simp
      next
        case neq: False
        have "k \<notin> dom (timers w)" using own[of k] neq by blast
        hence "timers w k = None" by (meson domIff)
        with neq show ?thesis by simp
      qed
    qed
    with Some False show ?thesis by (simp add: clearTimeout_def)
  qed
qed

lemma armRefreshTimer_timers:
  assumes "pendingOwned w"
  shows "dom (timers (armRefreshTimer r ms w)) = {Suc (lastHandle w)}"
    and "timeout (armRefreshTimer r ms w) = Some (Suc (lastHandle w))"
    and "pendingOwned (armRefreshTimer r ms w)"
proof -
  let ?w1 = "case timeout w of None \<Rightarrow> w | Some h \<Rightarrow> if h = 0 then w else clearTimeout h w"
  have lh: "lastHandle ?w1 = lastHandle w"
    by (cases "timeout w") (auto simp: clearTimeout_def)
  show d: "dom (timers (armRefreshTimer r ms w)) = {Suc (lastHandle w)}"
    and t: "timeout (armRefreshTimer r ms w) = Some (Suc (lastHandle w))"
    using cleared_timers[OF assms] lh by (simp_all add: armRefreshTimer_def setTimeout_def Let_def)
  show "pendingOwned (armRefreshTimer r ms w)"
    unfolding pendingOwned_def d t by simp
qed

lemma pendingOwned_cleanup [simp]:
  "pendingOwned (removeItem props k w) = pendingOwned w"
  "pendingOwned (setItem props k v w) = pendingOwned w"
  "pendingOwned (perform e w) = pendingOwned w"
  "pendingOwned (removeCodeFromLocation w) = pendingOwned w"
  "pendingOwned (setAuthTokens props a now w) = pendingOwned w"
  by (simp_all add: pendingOwned_def setAuthTokens_def)

lemma pendingOwned_startTimer:
  "pendingOwned w \<Longrightarrow> pendingOwned (snd (startTimer props now w))"
  by (auto simp: startTimer_def armRefreshTimer_timers(3) split: sum.splits option.splits)

lemma pendingOwned_fetchToken_settled:
  assumes "pendingOwned w"
  shows "pendingOwned (snd (fetchToken_settled props isRefresh p net tSet tStart w))"
proof (cases net)
  case (Inl e)
  with assms show ?thesis by (simp add: fetchToken_settled_def)
next
  case (Inr resp)
  show ?thesis
  proof (cases "body resp")
    case (Inl e)
    with Inr assms show ?thesis by (simp add: fetchToken_settled_def)
  next
    case json: (Inr json)
    define w2 where "w2 = setAuthTokens props
        (if isRefresh \<and> falsyString (refresh_token json)
         then json\<lparr>refresh_token := req_refresh_token p\<rparr> else json) tSet
        (removeItem props ''pkce'' w)"
    have w2: "pendingOwned w2" using assms by (simp add: w2_def)
    obtain res w3 where st: "startTimer props tStart w2 = (res, w3)"
      by (cases "startTimer props tStart w2")
    with pendingOwned_startTimer[OF w2, of props tStart] have "pendingOwned w3" by simp
    with w2 st Inr json show ?thesis
      by (cases res) (simp_all add: fetchToken_settled_def Let_def w2_def)
  qed
qed

lemma pendingOwned_fetchToken:
  assumes "pendingOwned w"
  shows "pendingOwned (snd (fetchToken props c isRefresh net tSet tStart w))"
proof -
  obtain r w1 where req: "fetchToken_request props c isRefresh w = (r, w1)"
    by (cases "fetchToken_request props c isRefresh w")
  from fetchToken_request_cases[OF req] assms have "pendingOwned w1" by auto
  with req show ?thesis
    by (cases r) (simp_all add: fetchToken_def pendingOwned_fetchToken_settled)
qed

lemma pendingOwned_refreshCallback:
  assumes "pendingOwned w"
  shows "pendingOwned (refreshCallback props r net tSet tStart tThen w)"
proof -
  obtain res w1 where run: "fetchToken props r True net tSet tStart w = (res, w1)"
    by (cases "fetchToken props r True net tSet tStart w")
  with pendingOwned_fetchToken[OF assms, of props r True net tSet tStart]
  have "pendingOwned w1" by simp
  with run show ?thesis
    by (auto simp: refreshCallback_def armRefreshTimer_timers(3) split: sum.splits option.splits)
qed

lemma pendingOwned_timerFires:
  assumes "pendingOwned w"
  shows "pendingOwned (timerFires props h net tSet tStart tThen w)"
proof (cases "timers w h")
  case None
  with assms show ?thesis by (simp add: timerFires_def)
next
  case (Some t)
  have "pendingOwned (w\<lparr>timers := (timers w)(h := None)\<rparr>)"
    using assms by (auto simp: pendingOwned_def)
  with Some show ?thesis
    by (cases t) (simp add: timerFires_def pendingOwned_refreshCallback)
qed

lemma pendingOwned_logout:
  "pendingOwned w \<Longrightarrow> pendingOwned (logout enc props b w)"
  by (simp add: logout_def Let_def)

lemma pendingOwned_step:
  "pendingOwned w \<Longrightarrow> pendingOwned (step enc props ev w)"
  by (cases ev)
    (simp_all add: armRefreshTimer_timers(3) pendingOwned_startTimer pendingOwned_fetchToken
      pendingOwned_timerFires pendingOwned_logout)

lemma pendingOwned_run:
  "pendingOwned w \<Longrightarrow> pendingOwned (run enc props evs w)"
  by (induction evs arbitrary: w) (simp_all add: pendingOwned_step)

lemma pendingOwned_new:
  assumes "pendingOwned w"
  shows "pendingOwned (snd (AuthService_new props net tSet tStart w))"
proof (cases "getCodeFromLocation (href w)")
  case (Inl e)
  with assms show ?thesis by (simp add: AuthService_new_def)
next
  case (Inr found)
  show ?thesis
  proof (cases found)
    case None
    with Inr assms show ?thesis
      by (simp add: AuthService_new_def pendingOwned_startTimer)
  next
    case (Some c)
    obtain res w1 where run: "fetchToken props c False net tSet tStart w = (res, w1)"
      by (cases "fetchToken props c False net tSet tStart w")
    with pendingOwned_fetchToken[OF assms, of props c False net tSet tStart]
    have "pendingOwned w1" by simp
    with run Inr Some show ?thesis
      by (cases res) (simp_all add: AuthService_new_def restoreUri_def Let_def split: option.splits)
  qed
qed

text \<open>The definitions to unfold when a concrete run is evaluated.\<close>

lemmas model_defs =
  fetchToken_def fetchToken_request_def fetchToken_settled_def getPkce_def getAuthTokens_def
  getItem_def haveItem_def removeItem_def setItem_def storageKey_def setAuthTokens_def slack_def
  computedExpiresAt_def jsAdd_def jsMul_def toDouble_exact
  isAuthenticated_def isPending_def startTimer_def armRefreshTimer_def setTimeout_def
  clearTimeout_def removeCodeFromLocation_def strippedUrl_def keyOf_def perform_def orElse_def
  falsyString_def restoreUri_def AuthService_new_def refreshCallback_def
  timerFires_def logout_def getCodeFromLocation_def decodeURIComponent_def hexDigit_def

lemmas example_defs =
  exampleProps_def exampleTokens_def examplePkce_def exampleWorld_def exampleEncoder_def

section \<open>Failed exchanges\<close>

text \<open>
  Claim C1, as the code has it. For every code or refresh exchange through
  \<open>fetchToken\<close>: if \<open>fetch\<close> rejects with an error \<open>e\<close>, or the body of
  the response is unparsable with the error \<open>e\<close>, then \<open>fetchToken\<close> rejects; it
  rejects with \<open>e\<close> itself, unwrapped, whenever the request was sent (a refresh, or a code
  exchange whose PKCE pair could be read); the entry under \<open>auth\<close> is left as it was, so
  nothing is persisted from that response; and no timer is armed or cancelled.
\<close>

theorem failed_exchange_persists_nothing:
  assumes "net = Inl e \<or> (\<exists>resp. net = Inr resp \<and> body resp = Inl e)"
  shows "(\<exists>e'. fst (fetchToken props c isRefresh net tSet tStart w) = Inl e')
       \<and> ((isRefresh \<or> (\<exists>p. getPkce props w = Inr p))
            \<longrightarrow> fst (fetchToken props c isRefresh net tSet tStart w) = Inl e)
       \<and> getItem props ''auth'' (snd (fetchToken props c isRefresh net tSet tStart w))
           = getItem props ''auth'' w
       \<and> timers (snd (fetchToken props c isRefresh net tSet tStart w)) = timers w"
proof -
  obtain r w1 where req: "fetchToken_request props c isRefresh w = (r, w1)"
    by (cases "fetchToken_request props c isRefresh w")
  show ?thesis
  proof (cases r)
    case (Inl e0)
    with fetchToken_request_cases[OF req] req show ?thesis
      by (auto simp: fetchToken_def)
  next
    case (Inr p)
    with fetchToken_request_cases[OF req] obtain eff where
      "w1 = perform eff w" "isRefresh \<or> (\<exists>k. getPkce props w = Inr k)"
      by auto
    with req assms Inr show ?thesis
      by (auto simp: fetchToken_def fetchToken_settled_def Let_def)
  qed
qed

text \<open>An unparsable body of a code exchange, with nothing stored under \<open>auth\<close>.\<close>

theorem failed_exchange_persists_nothing_witness:
  "fst (fetchToken exampleProps ''XYZ'' False
          (Inr \<lparr>status = 200, body = Inl (SyntaxError ''Unexpected token'')\<rparr>) 1000 1000
          (exampleWorld exampleUrl [''app_pkce'' \<mapsto> PkceJson examplePkce]))
     = Inl (SyntaxError ''Unexpected token'')
   \<and> getItem exampleProps ''auth''
        (snd (fetchToken exampleProps ''XYZ'' False
          (Inr \<lparr>status = 200, body = Inl (SyntaxError ''Unexpected token'')\<rparr>) 1000 1000
          (exampleWorld exampleUrl [''app_pkce'' \<mapsto> PkceJson examplePkce])))
     = None"
proof -
  let ?net = "Inr \<lparr>status = 200, body = Inl (SyntaxError ''Unexpected token'')\<rparr> :: error + response"
  let ?w = "exampleWorld exampleUrl [''app_pkce'' \<mapsto> PkceJson examplePkce]"
  have hyp: "?net = Inl (SyntaxError ''Unexpected token'')
       \<or> (\<exists>resp. ?net = Inr resp \<and> body resp = Inl (SyntaxError ''Unexpected token''))"
    by simp
  have pk: "getPkce exampleProps ?w = Inr examplePkce"
    by (simp add: model_defs example_defs)
  have au: "getItem exampleProps ''auth'' ?w = None"
    by (simp add: model_defs example_defs)
  from failed_exchange_persists_nothing[OF hyp, of exampleProps "''XYZ''" False 1000 1000 ?w] pk au
  show ?thesis by simp
qed

text \<open>
  The status is never read: a response with status 400 whose body parses, here to an error
  object, is persisted as a token record, the exchange resolves and the session counts as
  authenticated.
\<close>

theorem non_success_status_persisted:
  "status \<lparr>status = 400, body = Inr exampleErrorBody\<rparr> = 400
   \<and> fst (fetchToken exampleProps ''XYZ'' False
            (Inr \<lparr>status = 400, body = Inr exampleErrorBody\<rparr>) 1000 1000
            (exampleWorld exampleUrl [''app_pkce'' \<mapsto> PkceJson examplePkce]))
       = Inr exampleErrorBody
   \<and> getItem exampleProps ''auth''
        (snd (fetchToken exampleProps ''XYZ'' False
            (Inr \<lparr>status = 400, body = Inr exampleErrorBody\<rparr>) 1000 1000
            (exampleWorld exampleUrl [''app_pkce'' \<mapsto> PkceJson examplePkce])))
       = Some (AuthJson exampleErrorBody)
   \<and> isAuthenticated exampleProps
        (snd (fetchToken exampleProps ''XYZ'' False
            (Inr \<lparr>status = 400, body = Inr exampleErrorBody\<rparr>) 1000 1000
            (exampleWorld exampleUrl [''app_pkce'' \<mapsto> PkceJson examplePkce])))"
  by (simp add: model_defs example_defs exampleErrorBody_def exampleUrl_def Let_def)

section \<open>Cleaning up after the code exchange\<close>

text \<open>
  Claim C2, as the code has it. For every construction that finds a code in the URL: the
  constructor does not throw; once the exchange has completed, resolved or rejected, no PKCE
  pair is left under \<open>pkce\<close>; and when the exchange resolved, nothing is left under
  \<open>preAuthUri\<close> either.
\<close>

theorem code_exchange_cleanup:
  assumes "getCodeFromLocation (href w) = Inr (Some c)"
  shows "fst (AuthService_new props net tSet tStart w) = Inr ()
       \<and> getItem props ''pkce'' (snd (AuthService_new props net tSet tStart w)) = None
       \<and> ((\<exists>a w1. fetchToken props c False net tSet tStart w = (Inr a, w1))
            \<longrightarrow> getItem props ''preAuthUri'' (snd (AuthService_new props net tSet tStart w)) = None)"
proof -
  obtain r w1 where run: "fetchToken props c False net tSet tStart w = (r, w1)"
    by (cases "fetchToken props c False net tSet tStart w")
  show ?thesis
  proof (cases r)
    case (Inl e)
    with run assms show ?thesis by (simp add: AuthService_new_def)
  next
    case (Inr a)
    with run fetchToken_Inr_pkce(1)[of props c False net tSet tStart w a w1] assms
    show ?thesis by (simp add: AuthService_new_def getItem_restoreUri)
  qed
qed

text \<open>A code exchange that resolves, with both entries stored before.\<close>

theorem code_exchange_cleanup_witness:
  "getCodeFromLocation (href (exampleWorld exampleUrl
       [''app_pkce'' \<mapsto> PkceJson examplePkce, ''app_preAuthUri'' \<mapsto> Text ''https://a/b''])) = Inr (Some ''XYZ'')
   \<and> getItem exampleProps ''pkce''
       (snd (AuthService_new exampleProps (Inr (exampleResponse 200 (Some ''rt''))) 1000 1000
          (exampleWorld exampleUrl
             [''app_pkce'' \<mapsto> PkceJson examplePkce, ''app_preAuthUri'' \<mapsto> Text ''https://a/b'']))) = None
   \<and> getItem exampleProps ''preAuthUri''
       (snd (AuthService_new exampleProps (Inr (exampleResponse 200 (Some ''rt''))) 1000 1000
          (exampleWorld exampleUrl
             [''app_pkce'' \<mapsto> PkceJson examplePkce, ''app_preAuthUri'' \<mapsto> Text ''https://a/b'']))) = None"
proof -
  let ?w = "exampleWorld exampleUrl
       [''app_pkce'' \<mapsto> PkceJson examplePkce, ''app_preAuthUri'' \<mapsto> Text ''https://a/b'']"
  let ?net = "Inr (exampleResponse 200 (Some ''rt'')) :: error + response"
  have found: "getCodeFromLocation (href ?w) = Inr (Some ''XYZ'')"
    by (simp add: model_defs example_defs exampleUrl_def)
  have "fst (fetchToken exampleProps ''XYZ'' False ?net 1000 1000 ?w)
          = Inr (exampleTokens (Some ''rt'') (Some 3600) (Some 3606000))"
    by (simp add: model_defs example_defs exampleResponse_def exampleUrl_def Let_def)
  hence "\<exists>a w1. fetchToken exampleProps ''XYZ'' False ?net 1000 1000 ?w = (Inr a, w1)"
    by (metis prod.collapse)
  with code_exchange_cleanup[OF found, of exampleProps ?net 1000 1000] found
  show ?thesis by simp
qed

text \<open>
  When the exchange is rejected (here \<open>fetch\<close> fails), the \<open>catch\<close> handler
  removes \<open>pkce\<close> and \<open>auth\<close> only: the Pre-Auth URI stays in storage.
\<close>

theorem rejected_exchange_keeps_preAuthUri:
  "getCodeFromLocation
     (href (exampleWorld ''https://a/b?code=XYZ''
        [''app_pkce'' \<mapsto> PkceJson examplePkce, ''app_preAuthUri'' \<mapsto> Text ''https://a/b''])) = Inr (Some ''XYZ'')
   \<and> getItem exampleProps ''preAuthUri''
       (snd (AuthService_new exampleProps (Inl (TypeError ''Failed to fetch'')) 1000 1000
         (exampleWorld ''https://a/b?code=XYZ''
            [''app_pkce'' \<mapsto> PkceJson examplePkce, ''app_preAuthUri'' \<mapsto> Text ''https://a/b''])))
     = Some (Text ''https://a/b'')"
  by (simp add: model_defs example_defs Let_def)

section \<open>Reading the code\<close>

text \<open>
  Claim C3 says that the scan returns the value of the first \<open>code\<close> parameter with a
  literal \<open>=\<close> inside the value preserved. \<open>getCodeFromLocation\<close> splits the pair
  on every \<open>=\<close> and keeps the second piece only, so at these two URLs the code it
  returns stops at the first \<open>=\<close> of the value.
\<close>

theorem code_value_cut_at_equals_sign:
  "getCodeFromLocation ''https://a/b?code=4/P7q=7W91&state=s'' = Inr (Some ''4/P7q'')
   \<and> getCodeFromLocation ''https://a/b?state=s&code=YWJjZA=='' = Inr (Some ''YWJjZA'')"
  by (simp add: getCodeFromLocation_def decodeURIComponent_def hexDigit_def)

section \<open>The expiry time of a persisted record\<close>




section \<open>Removing the code\<close>

text \<open>
  Claim C5 says that removing the code preserves every other query parameter verbatim.
  \<open>removeCodeFromLocation\<close> keeps the first two pieces of the URL split on \<open>?\<close>,
  so at this URL the value of \<open>y\<close> loses what follows its \<open>?\<close>.
\<close>

theorem parameters_after_second_question_mark_lost:
  "href (removeCodeFromLocation (exampleWorld ''https://a/b?x=1&code=ABC&y=a?b'' Map.empty))
     = ''https://a/b?x=1&y=a''"
  by (simp add: removeCodeFromLocation_def strippedUrl_def keyOf_def exampleWorld_def)

section \<open>Carrying the refresh token forward\<close>

text \<open>
  Claim C6. For every refresh exchange whose response parses to a record without
  \<open>refresh_token\<close>: whatever record is under \<open>auth\<close> afterwards has the refresh
  token that was sent, and so has the record the exchange resolves to; and the exchange does
  resolve, with that record persisted, unless \<open>startTimer\<close> finds the new record
  already expired, that is, unless the \<open>expires_at\<close> computed for it is a number not
  after the time \<open>startTimer\<close> reads.
\<close>

theorem refresh_token_carried_forward:
  assumes lacks: "refresh_token json = None"
    and run: "fetchToken props c True (Inr \<lparr>status = st, body = Inr json\<rparr>) tSet tStart w = (r, w')"
  shows "(\<forall>a. getItem props ''auth'' w' = Some (AuthJson a) \<longrightarrow> refresh_token a = Some c)
       \<and> (\<forall>a. r = Inr a \<longrightarrow> refresh_token a = Some c)
       \<and> ((\<forall>x. computedExpiresAt props tSet (expires_in json) = Some x \<longrightarrow> tStart < x)
            \<longrightarrow> (\<exists>a. r = Inr a \<and> getItem props ''auth'' w' = Some (AuthJson a)))"
proof -
  define a' where "a' = json\<lparr>refresh_token := Some c,
     expires_at := computedExpiresAt props tSet (expires_in json)\<rparr>"
  define payload where "payload = \<lparr>req_clientId = clientId props, req_grantType = ''refresh_token'',
        req_redirectUri = redirectUri props, req_refresh_token = Some c,
        req_clientSecret = (if falsyString (clientSecret props) then None else clientSecret props),
        req_code = None, req_codeVerifier = None\<rparr>"
  define w0 where "w0 = perform (Fetch (orElse (tokenEndpoint props) (provider props @ ''/token''))
                   (orElse (contentType props) ''application/x-www-form-urlencoded'') payload) w"
  define w2 where "w2 = setAuthTokens props (json\<lparr>refresh_token := Some c\<rparr>) tSet (removeItem props ''pkce'' w0)"
  have w2: "getItem props ''auth'' w2 = Some (AuthJson a')"
    by (simp add: w2_def a'_def getItem_setAuthTokens_auth)
  have settled: "fetchToken_settled props True payload (Inr \<lparr>status = st, body = Inr json\<rparr>) tSet tStart w0 = (r, w')"
    using run unfolding fetchToken_refresh_unfold payload_def w0_def .
  have rt: "refresh_token a' = Some c" by (simp add: a'_def)
  have ea: "expires_at a' = computedExpiresAt props tSet (expires_in json)"
    by (simp add: a'_def)
  show ?thesis
  proof (cases "autoRefresh props \<noteq> Some False")
    case False
    with settled lacks have "w' = w2" "r = getAuthTokens props w2"
      by (auto simp: fetchToken_settled_def Let_def falsyString_def payload_def w2_def)
    with w2 rt show ?thesis by (auto simp: getAuthTokens_def)
  next
    case True
    let ?w3 = "snd (startTimer props tStart w2)"
    from True settled lacks have w': "w' = ?w3" and r: "r = getAuthTokens props ?w3"
      by (auto simp: fetchToken_settled_def Let_def falsyString_def payload_def w2_def
          startTimer_on_record[OF w2[unfolded w2_def payload_def]] split: prod.splits sum.splits)
    from startTimer_auth[of props tStart w2] w2
    have alt: "getItem props ''auth'' ?w3 = None \<or> getItem props ''auth'' ?w3 = Some (AuthJson a')"
      by auto
    have fresh: "(\<forall>x. computedExpiresAt props tSet (expires_in json) = Some x \<longrightarrow> tStart < x)
       \<Longrightarrow> getItem props ''auth'' ?w3 = Some (AuthJson a')"
      using w2 rt ea by (auto simp: startTimer_on_record[OF w2] split: option.splits)
    from alt fresh rt show ?thesis unfolding w' r
      by (auto simp: getAuthTokens_def)
  qed
qed

text \<open>A refresh with the token \<open>rt0\<close>, answered without a refresh token.\<close>

theorem refresh_token_carried_forward_witness:
  "refresh_token (exampleTokens None (Some 3600) None) = None
   \<and> getItem exampleProps ''auth''
       (snd (fetchToken exampleProps ''rt0'' True (Inr (exampleResponse 200 None)) 1000 1001
          (exampleWorld ''https://a/b''
             [''app_auth'' \<mapsto> AuthJson (exampleTokens (Some ''rt0'') (Some 3600) (Some 900))])))
     = Some (AuthJson (exampleTokens (Some ''rt0'') (Some 3600) (Some 3606000)))"
proof -
  let ?w = "exampleWorld ''https://a/b''
             [''app_auth'' \<mapsto> AuthJson (exampleTokens (Some ''rt0'') (Some 3600) (Some 900))]"
  let ?run = "fetchToken exampleProps ''rt0'' True (Inr (exampleResponse 200 None)) 1000 1001 ?w"
  have lacks: "refresh_token (exampleTokens None (Some 3600) None) = None"
    by (simp add: exampleTokens_def)
  have run: "fetchToken exampleProps ''rt0'' True
       (Inr \<lparr>status = 200, body = Inr (exampleTokens None (Some 3600) None)\<rparr>) 1000 1001 ?w
       = (fst ?run, snd ?run)"
    by (simp add: exampleResponse_def)
  have "computedExpiresAt exampleProps 1000 (Some 3600) = Some 3606000"
    by (simp add: computedExpiresAt_exact slack_def exampleProps_def)
  hence fresh: "\<forall>x. computedExpiresAt exampleProps 1000
         (expires_in (exampleTokens None (Some 3600) None)) = Some x \<longrightarrow> (1001::int) < x"
    by (simp add: exampleTokens_def)
  from refresh_token_carried_forward[OF lacks run] fresh
  obtain a where a: "fst ?run = Inr a" "getItem exampleProps ''auth'' (snd ?run) = Some (AuthJson a)"
    "refresh_token a = Some ''rt0''"
    by blast
  have "fst ?run = Inr (exampleTokens (Some ''rt0'') (Some 3600) (Some 3606000))"
    by (simp add: model_defs example_defs exampleResponse_def Let_def)
  with a lacks show ?thesis by simp
qed

section \<open>A stale session\<close>

text \<open>
  Claim C7, as the code has it. For every stored token record that has a non-empty refresh
  token and a non-zero \<open>expires_at\<close> with \<open>expires_at - now \<le> 0\<close>:
  \<open>startTimer\<close> deletes the record, strips the code from the URL, arms and cancels no
  timer and sends no request.
\<close>

theorem startTimer_stale_session:
  assumes "getItem props ''auth'' w = Some (AuthJson a)"
    and "expires_at a = Some expiresAt" and "expiresAt \<noteq> 0"
    and "refresh_token a = Some refreshToken" and "refreshToken \<noteq> []"
    and "expiresAt - now \<le> 0"
  shows "startTimer props now w = (Inr (), removeCodeFromLocation (removeItem props ''auth'' w))
       \<and> getItem props ''auth'' (snd (startTimer props now w)) = None
       \<and> href (snd (startTimer props now w))
           = (case strippedUrl (href w) of None \<Rightarrow> href w | Some url \<Rightarrow> url)
       \<and> timers (snd (startTimer props now w)) = timers w
       \<and> timeout (snd (startTimer props now w)) = timeout w
       \<and> effects (snd (startTimer props now w)) = effects w"
  using assms
  by (simp add: startTimer_on_record href_removeCodeFromLocation split: option.splits)

text \<open>A record that expired at 1000, looked at at 2000.\<close>

theorem startTimer_stale_session_witness:
  "getItem exampleProps ''auth''
     (exampleWorld exampleUrl
        [''app_auth'' \<mapsto> AuthJson (exampleTokens (Some ''rt'') (Some 3600) (Some 1000))])
     = Some (AuthJson (exampleTokens (Some ''rt'') (Some 3600) (Some 1000)))
   \<and> getItem exampleProps ''auth''
       (snd (startTimer exampleProps 2000
          (exampleWorld exampleUrl
             [''app_auth'' \<mapsto> AuthJson (exampleTokens (Some ''rt'') (Some 3600) (Some 1000))])))
     = None
   \<and> href (snd (startTimer exampleProps 2000
          (exampleWorld exampleUrl
             [''app_auth'' \<mapsto> AuthJson (exampleTokens (Some ''rt'') (Some 3600) (Some 1000))])))
     = ''https://a/b?x=1&y=2''"
proof -
  let ?a = "exampleTokens (Some ''rt'') (Some 3600) (Some 1000)"
  let ?w = "exampleWorld exampleUrl [''app_auth'' \<mapsto> AuthJson ?a]"
  have st: "getItem exampleProps ''auth'' ?w = Some (AuthJson ?a)"
    by (simp add: getItem_def storageKey_def exampleProps_def exampleWorld_def)
  have url: "strippedUrl (href ?w) = Some ''https://a/b?x=1&y=2''"
    by (simp add: strippedUrl_def keyOf_def exampleWorld_def exampleUrl_def)
  have h1: "expires_at ?a = Some 1000" and h2: "(1000::int) \<noteq> 0"
    and h3: "refresh_token ?a = Some ''rt''" and h4: "''rt'' \<noteq> []"
    and h5: "(1000::int) - 2000 \<le> 0"
    by (simp_all add: exampleTokens_def)
  from startTimer_stale_session[OF st h1 h2 h3 h4 h5]
  have "getItem exampleProps ''auth'' (snd (startTimer exampleProps 2000 ?w)) = None"
    and "href (snd (startTimer exampleProps 2000 ?w))
           = (case strippedUrl (href ?w) of None \<Rightarrow> href ?w | Some u \<Rightarrow> u)"
    by blast+
  with st url show ?thesis by simp
qed

text \<open>
  A record without a refresh token is left alone by the guard
  \<open>!expiresAt || !refreshToken\<close>, however long ago it expired: neither the record nor
  the code in the URL is removed.
\<close>

theorem stale_record_without_refresh_token_kept:
  "expires_at (exampleTokens None (Some 3600) (Some 1000)) = Some 1000
   \<and> (1000::int) - 2000 \<le> 0
   \<and> getItem exampleProps ''auth''
       (snd (startTimer exampleProps 2000
          (exampleWorld ''https://a/b?code=XYZ''
             [''app_auth'' \<mapsto> AuthJson (exampleTokens None (Some 3600) (Some 1000))])))
     = Some (AuthJson (exampleTokens None (Some 3600) (Some 1000)))
   \<and> href (snd (startTimer exampleProps 2000
          (exampleWorld ''https://a/b?code=XYZ''
             [''app_auth'' \<mapsto> AuthJson (exampleTokens None (Some 3600) (Some 1000))])))
     = ''https://a/b?code=XYZ''"
  by (simp add: model_defs example_defs Let_def)

section \<open>At most one refresh timer\<close>

text \<open>
  Claim C8. Take an instance from its construction through any sequence of calls of
  \<open>armRefreshTimer\<close>, \<open>startTimer\<close>, \<open>fetchToken\<close> and \<open>logout\<close> and of
  timer expiries. At every point at most one refresh timer is pending, it is the one
  \<open>this.timeout\<close> names, and arming again leaves the new timer as the only one pending:
  the previous one has been cancelled.
\<close>

theorem at_most_one_refresh_timer:
  assumes "timers w = Map.empty" and "timeout w = None"
    and "w' = run enc props evs (snd (AuthService_new props net tSet tStart w))"
  shows "finite (dom (timers w')) \<and> card (dom (timers w')) \<le> 1
       \<and> (\<forall>h \<in> dom (timers w'). timeout w' = Some h)
       \<and> dom (timers (armRefreshTimer r ms w')) = {Suc (lastHandle w')}
       \<and> timeout (armRefreshTimer r ms w') = Some (Suc (lastHandle w'))"
proof -
  have "pendingOwned w" using assms(1) by (simp add: pendingOwned_def)
  hence inv: "pendingOwned w'"
    unfolding assms(3) by (intro pendingOwned_run pendingOwned_new)
  from pendingOwned_card[OF inv] armRefreshTimer_timers(1,2)[OF inv] inv
  show ?thesis by (auto simp: pendingOwned_def)
qed

text \<open>An instance that arms, fires, restarts and arms again.\<close>

theorem at_most_one_refresh_timer_witness:
  "timers (exampleWorld exampleUrl [''app_pkce'' \<mapsto> PkceJson examplePkce]) = Map.empty
   \<and> timeout (exampleWorld exampleUrl [''app_pkce'' \<mapsto> PkceJson examplePkce]) = None
   \<and> card (dom (timers
        (run exampleEncoder exampleProps
           [ArmRefreshTimer ''rt1'' 500,
            TimerFires 1 (Inr (exampleResponse 200 None)) 2000 2000 2000,
            StartTimer 3000,
            ArmRefreshTimer ''rt2'' 700]
           (snd (AuthService_new exampleProps (Inr (exampleResponse 200 (Some ''rt''))) 1000 1000
              (exampleWorld exampleUrl [''app_pkce'' \<mapsto> PkceJson examplePkce])))))) \<le> 1"
proof -
  let ?w = "exampleWorld exampleUrl [''app_pkce'' \<mapsto> PkceJson examplePkce]"
  have 1: "timers ?w = Map.empty" and 2: "timeout ?w = None"
    by (simp_all add: exampleWorld_def)
  from at_most_one_refresh_timer[OF 1 2 refl, where enc = exampleEncoder and props = exampleProps
      and net = "Inr (exampleResponse 200 (Some ''rt''))" and tSet = 1000 and tStart = 1000
      and evs = "[ArmRefreshTimer ''rt1'' 500,
            TimerFires 1 (Inr (exampleResponse 200 None)) 2000 2000 2000,
            StartTimer 3000,
            ArmRefreshTimer ''rt2'' 700]"]
  have "card (dom (timers
        (run exampleEncoder exampleProps
           [ArmRefreshTimer ''rt1'' 500,
            TimerFires 1 (Inr (exampleResponse 200 None)) 2000 2000 2000,
            StartTimer 3000,
            ArmRefreshTimer ''rt2'' 700]
           (snd (AuthService_new exampleProps (Inr (exampleResponse 200 (Some ''rt''))) 1000 1000 ?w))))) \<le> 1"
    by blast
  with 1 2 show ?thesis by blast
qed

section \<open>Logout and a refresh under way\<close>

text \<open>
  Claim C9. \<open>logout\<close> clears the token record but cancels neither a pending refresh
  timer nor a refresh request already sent. If a refresh timer is pending when \<open>logout\<close>
  runs and the refresh is answered with a record that has not yet expired (the
  \<open>expires_at\<close> computed for it is after the times read by \<open>startTimer\<close> and by the
  \<open>then\<close> handler), then after \<open>logout\<close> the timer is still pending, and when it
  fires the exchange puts a token record under \<open>auth\<close> again; the same holds for a
  refresh whose request left before \<open>logout\<close> and whose response arrives after it.
\<close>

theorem logout_leaves_refresh_running:
  assumes "timers w h = Some (r, ms)"
    and "body resp = Inr json" and "expires_in json = Some e"
    and "computedExpiresAt props tSet (Some e) = Some x"
    and "tStart < x" and "tThen < x"
  shows "\<not> isAuthenticated props (logout enc props b w)
       \<and> timers (logout enc props b w) h = Some (r, ms)
       \<and> isAuthenticated props
           (timerFires props h (Inr resp) tSet tStart tThen (logout enc props b w))
       \<and> (\<forall>payload w0. fetchToken_request props r True w = (Inr payload, w0) \<longrightarrow>
             \<not> isAuthenticated props (logout enc props b w0)
             \<and> isAuthenticated props
                 (snd (fetchToken_settled props True payload (Inr resp) tSet tStart
                         (logout enc props b w0))))"
proof -
  have f1: "\<forall>y. computedExpiresAt props tSet (expires_in json) = Some y \<longrightarrow> tStart < y"
    and f2: "\<forall>y. computedExpiresAt props tSet (expires_in json) = Some y \<longrightarrow> tThen < y"
    using assms(3-6) by simp_all
  have 1: "\<not> isAuthenticated props (logout enc props b w0)" for w0
    by (simp add: isAuthenticated_def haveItem_def getItem_logout)
  have 2: "timers (logout enc props b w) h = Some (r, ms)"
    using assms(1) by (simp add: timers_logout)
  have 3: "isAuthenticated props
           (timerFires props h (Inr resp) tSet tStart tThen (logout enc props b w))"
    using 2 by (simp add: timerFires_def refreshCallback_fresh[OF assms(2) f1 f2])
  have 4: "isAuthenticated props
                 (snd (fetchToken_settled props True payload (Inr resp) tSet tStart w1))"
    for payload w1
    using fetchToken_settled_fresh[OF assms(2) f1, where isRefresh=True and p=payload and w=w1]
    by (auto simp: isAuthenticated_def haveItem_def)
  from 1 2 3 4 show ?thesis by blast
qed

text \<open>A timer armed with the token \<open>rt\<close>, then \<open>logout\<close>, then the timer fires.\<close>

theorem logout_leaves_refresh_running_witness:
  "timers (armRefreshTimer ''rt'' 500
      (exampleWorld ''https://a/b''
         [''app_auth'' \<mapsto> AuthJson (exampleTokens (Some ''rt'') (Some 3600) (Some 1500))])) 1
     = Some (''rt'', 500)
   \<and> \<not> isAuthenticated exampleProps
       (logout exampleEncoder exampleProps False
          (armRefreshTimer ''rt'' 500
             (exampleWorld ''https://a/b''
                [''app_auth'' \<mapsto> AuthJson (exampleTokens (Some ''rt'') (Some 3600) (Some 1500))])))
   \<and> isAuthenticated exampleProps
       (timerFires exampleProps 1 (Inr (exampleResponse 200 None)) 1500 1500 1500
          (logout exampleEncoder exampleProps False
             (armRefreshTimer ''rt'' 500
                (exampleWorld ''https://a/b''
                   [''app_auth'' \<mapsto> AuthJson (exampleTokens (Some ''rt'') (Some 3600) (Some 1500))]))))"
proof -
  let ?w = "armRefreshTimer ''rt'' 500
      (exampleWorld ''https://a/b''
         [''app_auth'' \<mapsto> AuthJson (exampleTokens (Some ''rt'') (Some 3600) (Some 1500))])"
  have armed: "timers ?w 1 = Some (''rt'', 500)"
    by (simp add: armRefreshTimer_def setTimeout_def exampleWorld_def Let_def)
  have b: "body (exampleResponse 200 None) = Inr (exampleTokens None (Some 3600) None)"
    by (simp add: exampleResponse_def)
  have e: "expires_in (exampleTokens None (Some 3600) None) = Some 3600"
    by (simp add: exampleTokens_def)
  have x: "computedExpiresAt exampleProps 1500 (Some 3600) = Some 3606500"
    by (simp add: computedExpiresAt_exact slack_def exampleProps_def)
  have f: "(1500::int) < 3606500" by simp
  from logout_leaves_refresh_running[OF armed b e x f f, of exampleEncoder False] armed
  show ?thesis by simp
qed

section \<open>A code without a PKCE pair\<close>

text \<open>
  Claim C10, as the code has it. For every construction whose scan of the URL returns a
  code (the value of the first \<open>code\<close> parameter decodes) while nothing is stored under
  \<open>pkce\<close>: \<open>fetchToken\<close> throws \<open>PKCE pair not found in local storage\<close>
  with the state untouched, so before any request is sent; the constructor does not throw;
  and its \<open>catch\<close> handler leaves nothing under \<open>auth\<close> nor \<open>pkce\<close>, the
  warning being the only effect.
\<close>

theorem stray_code_destroys_session:
  assumes "getCodeFromLocation (href w) = Inr (Some c)"
    and "getItem props ''pkce'' w = None"
  shows "fetchToken props c False net tSet tStart w
           = (Inl (Error ''PKCE pair not found in local storage''), w)
       \<and> fst (AuthService_new props net tSet tStart w) = Inr ()
       \<and> getItem props ''auth'' (snd (AuthService_new props net tSet tStart w)) = None
       \<and> getItem props ''pkce'' (snd (AuthService_new props net tSet tStart w)) = None
       \<and> effects (snd (AuthService_new props net tSet tStart w))
           = effects w @ [ConsoleWarn (Error ''PKCE pair not found in local storage'')]"
proof -
  have "fetchToken props c False net tSet tStart w
           = (Inl (Error ''PKCE pair not found in local storage''), w)"
    using assms(2) by (simp add: fetchToken_def fetchToken_request_def getPkce_def Let_def)
  with assms(1) show ?thesis
    by (simp add: AuthService_new_def)
qed

text \<open>An authenticated session that is reached with a code in the URL.\<close>

theorem stray_code_destroys_session_witness:
  "getCodeFromLocation (href (exampleWorld exampleUrl
       [''app_auth'' \<mapsto> AuthJson (exampleTokens (Some ''rt'') (Some 3600) (Some 9000))])) = Inr (Some ''XYZ'')
   \<and> isAuthenticated exampleProps (exampleWorld exampleUrl
       [''app_auth'' \<mapsto> AuthJson (exampleTokens (Some ''rt'') (Some 3600) (Some 9000))])
   \<and> \<not> isAuthenticated exampleProps
       (snd (AuthService_new exampleProps (Inr (exampleResponse 200 (Some ''rt2''))) 1000 1000
          (exampleWorld exampleUrl
             [''app_auth'' \<mapsto> AuthJson (exampleTokens (Some ''rt'') (Some 3600) (Some 9000))])))
   \<and> effects
       (snd (AuthService_new exampleProps (Inr (exampleResponse 200 (Some ''rt2''))) 1000 1000
          (exampleWorld exampleUrl
             [''app_auth'' \<mapsto> AuthJson (exampleTokens (Some ''rt'') (Some 3600) (Some 9000))])))
     = [ConsoleWarn (Error ''PKCE pair not found in local storage'')]"
proof -
  let ?w = "exampleWorld exampleUrl
       [''app_auth'' \<mapsto> AuthJson (exampleTokens (Some ''rt'') (Some 3600) (Some 9000))]"
  have found: "getCodeFromLocation (href ?w) = Inr (Some ''XYZ'')"
    by (simp add: model_defs example_defs exampleUrl_def)
  have nopkce: "getItem exampleProps ''pkce'' ?w = None"
    by (simp add: getItem_def storageKey_def exampleProps_def exampleWorld_def)
  have auth: "isAuthenticated exampleProps ?w"
    by (simp add: isAuthenticated_def haveItem_def getItem_def storageKey_def exampleProps_def
        exampleWorld_def)
  have eff: "effects ?w = []" by (simp add: exampleWorld_def)
  from stray_code_destroys_session[OF found nopkce,
      of "Inr (exampleResponse 200 (Some ''rt2''))" 1000 1000] found auth eff
  show ?thesis by (simp add: isAuthenticated_def haveItem_def)
qed

text \<open>
  When the value of the \<open>code\<close> parameter is not a well-formed percent-encoding,
  \<open>decodeURIComponent\<close> throws inside the constructor: \<open>fetchToken\<close> is never
  called, the \<open>catch\<close> handler never runs, and the stored session stays.
\<close>

theorem malformed_code_keeps_session:
  "getItem exampleProps ''pkce''
     (exampleWorld ''https://a/b?code=%E0%A4%A''
        [''app_auth'' \<mapsto> AuthJson (exampleTokens (Some ''rt'') (Some 3600) (Some 9000))]) = None
   \<and> fst (AuthService_new exampleProps (Inr (exampleResponse 200 (Some ''rt2''))) 1000 1000
          (exampleWorld ''https://a/b?code=%E0%A4%A''
             [''app_auth'' \<mapsto> AuthJson (exampleTokens (Some ''rt'') (Some 3600) (Some 9000))]))
     = Inl (URIError ''URI malformed'')
   \<and> isAuthenticated exampleProps
       (snd (AuthService_new exampleProps (Inr (exampleResponse 200 (Some ''rt2''))) 1000 1000
          (exampleWorld ''https://a/b?code=%E0%A4%A''
             [''app_auth'' \<mapsto> AuthJson (exampleTokens (Some ''rt'') (Some 3600) (Some 9000))])))
   \<and> effects
       (snd (AuthService_new exampleProps (Inr (exampleResponse 200 (Some ''rt2''))) 1000 1000
          (exampleWorld ''https://a/b?code=%E0%A4%A''
             [''app_auth'' \<mapsto> AuthJson (exampleTokens (Some ''rt'') (Some 3600) (Some 9000))])))
     = []"
  by (simp add: model_defs example_defs Let_def)

end
